theory Spec2Isabelle
  imports Complex_Main "HOL-Library.Multiset" "HOL-Library.Sublist"
    "HOL-Library.Char_ord" "HOL-Library.List_Lexorder"
begin

section \<open>Data model\<close>

text \<open>
  The development embeds the complex-plane matching engine of
  \<^verbatim>\<open>gcloud-backend-main.py\<close> (classes \<^verbatim>\<open>ComplexPlaneMapper\<close> and
  \<^verbatim>\<open>DiagnosticEngine\<close>) and the \<^verbatim>\<open>AngleAllocator\<close> of
  \<^verbatim>\<open>cloud-functions.py\<close>.

  Conventions. Python floats are idealised as real numbers. A Python dict is an
  association list in insertion order (a well-formed dict has distinct keys); membership
  and subscripting are \<^const>\<open>map_of\<close>. The dictionaries that carry variables are
  records: a field the code reads with a subscript is a plain field, a field it reads with
  \<^verbatim>\<open>.get(key, default)\<close> is an option. The \<^verbatim>\<open>timestamp\<close> entries are left out.
\<close>

datatype py_value = Num real | Boolean bool | Text string | NoneVal

text \<open>\<^verbatim>\<open>isinstance(value, (int, float))\<close>: true for numbers and, in Python, for booleans.\<close>

fun numeric_of :: "py_value \<Rightarrow> real option" where
  "numeric_of (Num x) = Some x"
| "numeric_of (Boolean b) = Some (if b then 1 else 0)"
| "numeric_of (Text s) = None"
| "numeric_of NoneVal = None"

text \<open>Python truthiness of an observation value.\<close>

fun truthy :: "py_value \<Rightarrow> bool" where
  "truthy (Num x) = (x \<noteq> 0)"
| "truthy (Boolean b) = b"
| "truthy (Text s) = (s \<noteq> [])"
| "truthy NoneVal = False"

text \<open>An entry of the patient's complex-plane data, as \<^verbatim>\<open>map_to_complex_plane\<close> builds it.\<close>

record patient_var =
  p_variable :: string
  p_angle :: real
  p_magnitude :: real
  p_value :: py_value

text \<open>
  An entry of a reference profile's \<^verbatim>\<open>complex_plane_data\<close>: \<^verbatim>\<open>variable\<close> and
  \<^verbatim>\<open>angle\<close> are subscripted, \<^verbatim>\<open>magnitude\<close> and \<^verbatim>\<open>weight\<close> are read with
  \<^verbatim>\<open>.get\<close>.
\<close>

record ref_var =
  r_variable :: string
  r_angle :: real
  r_magnitude :: "real option"
  r_weight :: "real option"

record reference_profile =
  description :: "string option"
  complex_plane_data :: "(string \<times> ref_var list) list option"

type_synonym patient_data = "(string \<times> patient_var list) list"

text \<open>\<^verbatim>\<open>reference.get('complex_plane_data', {})\<close>\<close>

definition cpd :: "reference_profile \<Rightarrow> (string \<times> ref_var list) list" where
  "cpd reference = (case complex_plane_data reference of None \<Rightarrow> [] | Some m \<Rightarrow> m)"

text \<open>\<^verbatim>\<open>ref_var.get('magnitude', 0)\<close> and \<^verbatim>\<open>ref_var.get('weight', 1.0)\<close>\<close>

definition get_magnitude :: "ref_var \<Rightarrow> real" where
  "get_magnitude rv = (case r_magnitude rv of None \<Rightarrow> 0 | Some m \<Rightarrow> m)"

definition get_weight :: "ref_var \<Rightarrow> real" where
  "get_weight rv = (case r_weight rv of None \<Rightarrow> 1 | Some w \<Rightarrow> w)"

text \<open>The keys of the module-level \<^verbatim>\<open>DOMAINS\<close> table.\<close>

definition DOMAINS :: "string list" where
  "DOMAINS = [''subjective'', ''vitals'', ''examination'', ''laboratory'', ''imaging'',
              ''procedures'']"


section \<open>ComplexPlaneMapper\<close>

type_synonym angle_mapping = "(string \<times> (string \<times> real) list) list"

text \<open>The value of \<^verbatim>\<open>self.angle_mapping\<close> after \<^verbatim>\<open>_initialize_angle_mappings\<close>.\<close>

definition initialize_angle_mappings :: angle_mapping where
  "initialize_angle_mappings =
     [(''vitals'',
       [(''temperature'', 0), (''heart_rate'', 60), (''bp_systolic'', 120),
        (''bp_diastolic'', 180), (''oxygen_saturation'', 240), (''respiratory_rate'', 300)])]"

definition normalization_ranges :: "(string \<times> (string \<times> real \<times> real) list) list" where
  "normalization_ranges =
     [(''vitals'',
       [(''temperature'', (35, 42)), (''heart_rate'', (40, 200)), (''bp_systolic'', (70, 200)),
        (''bp_diastolic'', (40, 130)), (''oxygen_saturation'', (70, 100)),
        (''respiratory_rate'', (8, 40))])]"

text \<open>
  \<^verbatim>\<open>_normalize_value\<close>: affine normalisation clamped to the unit interval when the
  variable has a range, the default \<open>0.5\<close> otherwise.
\<close>

definition normalize_value :: "string \<Rightarrow> string \<Rightarrow> real \<Rightarrow> real" where
  "normalize_value domain variable val =
     (case map_of normalization_ranges domain of
        None \<Rightarrow> 0.5
      | Some ranges \<Rightarrow>
          (case map_of ranges variable of
             None \<Rightarrow> 0.5
           | Some (min_val, max_val) \<Rightarrow>
               (let normalized = (val - min_val) / (max_val - min_val)
                in max 0 (min 1 normalized))))"

text \<open>\<^verbatim>\<open>self.angle_mapping.get(domain, {})\<close>\<close>

definition angles_of_domain :: "angle_mapping \<Rightarrow> string \<Rightarrow> (string \<times> real) list" where
  "angles_of_domain am domain = (case map_of am domain of None \<Rightarrow> [] | Some m \<Rightarrow> m)"

text \<open>The magnitude branch inside the loop of \<^verbatim>\<open>map_to_complex_plane\<close>.\<close>

definition magnitude_of :: "string \<Rightarrow> string \<Rightarrow> py_value \<Rightarrow> real" where
  "magnitude_of domain var_name val =
     (case numeric_of val of
        Some x \<Rightarrow> normalize_value domain var_name x
      | None \<Rightarrow> (if truthy val then 1 else 0))"

text \<open>
  \<^verbatim>\<open>map_to_complex_plane\<close>: one output entry per observation whose name has an angle
  in the mapping of the domain; the other observations produce nothing.
\<close>

fun map_to_complex_plane ::
  "angle_mapping \<Rightarrow> string \<Rightarrow> (string \<times> py_value) list \<Rightarrow> patient_var list" where
  "map_to_complex_plane am domain [] = []"
| "map_to_complex_plane am domain ((var_name, val) # variables) =
     (case map_of (angles_of_domain am domain) var_name of
        Some angle \<Rightarrow>
          \<lparr>p_variable = var_name, p_angle = angle,
           p_magnitude = magnitude_of domain var_name val, p_value = val\<rparr>
          # map_to_complex_plane am domain variables
      | None \<Rightarrow> map_to_complex_plane am domain variables)"



section \<open>DiagnosticEngine: the three measures\<close>

text \<open>\<^verbatim>\<open>np.radians\<close> and \<^verbatim>\<open>np.mean\<close> (the latter is only called on non-empty lists).\<close>

definition radians :: "real \<Rightarrow> real" where
  "radians x = x * pi / 180"

definition np_mean :: "real list \<Rightarrow> real" where
  "np_mean xs = sum_list xs / real (length xs)"

subsection \<open>\<^verbatim>\<open>_calculate_bayesian_probability\<close>\<close>

text \<open>
  The body of the innermost loop, on the accumulators
  \<open>(total_score, total_weight)\<close>.
\<close>

definition bayesian_step :: "patient_var \<Rightarrow> ref_var \<Rightarrow> real \<times> real \<Rightarrow> real \<times> real" where
  "bayesian_step patient_var ref_var acc =
     (case acc of (total_score, total_weight) \<Rightarrow>
        if p_variable patient_var = r_variable ref_var then
          (let angle_diff = \<bar>p_angle patient_var - r_angle ref_var\<bar>;
               magnitude_diff = \<bar>p_magnitude patient_var - get_magnitude ref_var\<bar>;
               similarity = 1 - (angle_diff / 360 + magnitude_diff) / 2;
               weight = get_weight ref_var
           in (total_score + similarity * weight, total_weight + weight))
        else acc)"

text \<open>One round of the outer loop \<^verbatim>\<open>for domain, patient_vars in patient_data.items()\<close>.\<close>

definition bayesian_domain ::
  "reference_profile \<Rightarrow> string \<times> patient_var list \<Rightarrow> real \<times> real \<Rightarrow> real \<times> real" where
  "bayesian_domain reference entry acc =
     (case entry of (domain, patient_vars) \<Rightarrow>
        (case map_of (cpd reference) domain of
           None \<Rightarrow> acc
         | Some reference_vars \<Rightarrow>
             fold (\<lambda>patient_var. fold (bayesian_step patient_var) reference_vars)
               patient_vars acc))"

definition calculate_bayesian_probability :: "patient_data \<Rightarrow> reference_profile \<Rightarrow> real" where
  "calculate_bayesian_probability patient_data reference =
     (case fold (bayesian_domain reference) patient_data (0, 0) of
        (total_score, total_weight) \<Rightarrow>
          if total_weight > 0 then total_score / total_weight else 0)"

subsection \<open>\<^verbatim>\<open>_calculate_kuramoto_synchronization\<close>\<close>

text \<open>
  One round of \<^verbatim>\<open>for domain in patient_data\<close>; the phases of the two sides are paired
  by list index up to the shorter length.
\<close>

definition kuramoto_domain ::
  "reference_profile \<Rightarrow> string \<times> patient_var list \<Rightarrow> real list \<Rightarrow> real list" where
  "kuramoto_domain reference entry phase_differences =
     (case entry of (domain, patient_vars) \<Rightarrow>
        (case map_of (cpd reference) domain of
           None \<Rightarrow> phase_differences
         | Some reference_vars \<Rightarrow>
             (let patient_phases = map (\<lambda>var. radians (p_angle var)) patient_vars;
                  ref_phases = map (\<lambda>var. radians (r_angle var)) reference_vars
              in if patient_phases \<noteq> [] \<and> ref_phases \<noteq> [] then
                   (let min_len = min (length patient_phases) (length ref_phases);
                        phase_diff =
                          np_mean (map (\<lambda>i. cos (patient_phases ! i - ref_phases ! i))
                                     [0..<min_len])
                    in phase_differences @ [phase_diff])
                 else phase_differences)))"

definition calculate_kuramoto_synchronization ::
  "patient_data \<Rightarrow> reference_profile \<Rightarrow> real" where
  "calculate_kuramoto_synchronization patient_data reference =
     (let phase_differences = fold (kuramoto_domain reference) patient_data []
      in if phase_differences \<noteq> [] then np_mean phase_differences else 0)"

subsection \<open>\<^verbatim>\<open>_domain_match_score\<close> and \<^verbatim>\<open>_calculate_markov_probability\<close>\<close>

text \<open>
  The inner loop over the reference variables: it stops (\<^verbatim>\<open>break\<close>) at the first
  reference variable with the patient variable's name.
\<close>

fun match_first :: "patient_var \<Rightarrow> ref_var list \<Rightarrow> nat \<Rightarrow> nat" where
  "match_first patient_var [] matches = matches"
| "match_first patient_var (ref_var # reference_domain) matches =
     (if p_variable patient_var = r_variable ref_var then
        (if p_magnitude patient_var > 0.5 \<and> get_magnitude ref_var > 0.5
         then matches + 1 else matches)
      else match_first patient_var reference_domain matches)"

definition domain_match_score :: "patient_var list \<Rightarrow> ref_var list \<Rightarrow> real" where
  "domain_match_score patient_domain reference_domain =
     (if patient_domain = [] \<or> reference_domain = [] then 0
      else (let matches = fold (\<lambda>patient_var. match_first patient_var reference_domain)
                            patient_domain 0;
                total = length patient_domain
            in if total > 0 then real matches / real total else 0))"

definition domain_sequence :: "string list" where
  "domain_sequence = [''subjective'', ''vitals'', ''examination'', ''laboratory'', ''imaging'']"

text \<open>One round of \<^verbatim>\<open>for i in range(len(domain_sequence) - 1)\<close>.\<close>

definition markov_step :: "patient_data \<Rightarrow> reference_profile \<Rightarrow> nat \<Rightarrow> real \<Rightarrow> real" where
  "markov_step patient_data reference i transition_score =
     (let current_domain = domain_sequence ! i;
          next_domain = domain_sequence ! (i + 1)
      in case map_of patient_data current_domain of
           None \<Rightarrow> transition_score
         | Some patient_current \<Rightarrow>
             (case map_of patient_data next_domain of
                None \<Rightarrow> transition_score
              | Some patient_next \<Rightarrow>
                  (case map_of (cpd reference) current_domain of
                     None \<Rightarrow> transition_score
                   | Some reference_current \<Rightarrow>
                       (case map_of (cpd reference) next_domain of
                          None \<Rightarrow> transition_score
                        | Some reference_next \<Rightarrow>
                            (let current_match =
                                   domain_match_score patient_current reference_current;
                                 next_match = domain_match_score patient_next reference_next
                             in transition_score + current_match * next_match)))))"

definition calculate_markov_probability :: "patient_data \<Rightarrow> reference_profile \<Rightarrow> real" where
  "calculate_markov_probability patient_data reference =
     fold (markov_step patient_data reference) [0..<length domain_sequence - 1] 0
       / real (length domain_sequence - 1)"


section \<open>DiagnosticEngine: scoring and ranking\<close>

record scores =
  icd10_code :: string
  score_description :: string
  bayesian :: real
  kuramoto :: real
  markov :: real
  combined :: real

type_synonym encounter = "(string \<times> (string \<times> py_value) list) list"

type_synonym reference_library = "(string \<times> reference_profile) list"

text \<open>The first loop of \<^verbatim>\<open>analyze_patient_encounter\<close>: only keys of \<^verbatim>\<open>DOMAINS\<close> are mapped.\<close>

fun patient_complex_data :: "angle_mapping \<Rightarrow> encounter \<Rightarrow> patient_data" where
  "patient_complex_data am [] = []"
| "patient_complex_data am ((domain, data) # encounter_data) =
     (if domain \<in> set DOMAINS
      then (domain, map_to_complex_plane am domain data) # patient_complex_data am encounter_data
      else patient_complex_data am encounter_data)"

text \<open>The body of the loop over the reference library.\<close>

definition score_candidate :: "patient_data \<Rightarrow> string \<times> reference_profile \<Rightarrow> scores" where
  "score_candidate patient entry =
     (case entry of (icd_code, reference_profile) \<Rightarrow>
        (let b = calculate_bayesian_probability patient reference_profile;
             k = calculate_kuramoto_synchronization patient reference_profile;
             m = calculate_markov_probability patient reference_profile
         in \<lparr>icd10_code = icd_code,
             score_description =
               (case description reference_profile of None \<Rightarrow> [] | Some d \<Rightarrow> d),
             bayesian = b, kuramoto = k, markov = m,
             combined = b * 0.4 + k * 0.3 + m * 0.3\<rparr>))"

definition diagnosis_scores ::
  "angle_mapping \<Rightarrow> reference_library \<Rightarrow> encounter \<Rightarrow> scores list" where
  "diagnosis_scores am library encounter_data =
     map (score_candidate (patient_complex_data am encounter_data)) library"

text \<open>
  \<^verbatim>\<open>diagnosis_scores.sort(key=lambda x: x['combined'], reverse=True)\<close>: Python's sort is
  stable, also with \<^verbatim>\<open>reverse=True\<close>, so it is the stable sort on the negated key.
\<close>

definition sort_by_combined :: "scores list \<Rightarrow> scores list" where
  "sort_by_combined xs = sort_key (\<lambda>x. - combined x) xs"

record analysis =
  diagnoses :: "scores list"
  analysis_patient_complex_data :: patient_data

definition analyze_patient_encounter ::
  "angle_mapping \<Rightarrow> reference_library \<Rightarrow> encounter \<Rightarrow> analysis" where
  "analyze_patient_encounter am library encounter_data =
     \<lparr>diagnoses = take 10 (sort_by_combined (diagnosis_scores am library encounter_data)),
      analysis_patient_complex_data = patient_complex_data am encounter_data\<rparr>"


section \<open>AngleAllocator\<close>







section \<open>The measures as the specification words them\<close>

text \<open>
  The matched pair list: for every domain of the patient that the reference also has, the
  pairs of a patient variable and a reference variable with the same name.
\<close>

definition pairs_of_domain :: "patient_var list \<Rightarrow> ref_var list \<Rightarrow> (patient_var \<times> ref_var) list" where
  "pairs_of_domain patient_vars reference_vars =
     concat (map (\<lambda>pv. map (Pair pv) (filter (\<lambda>rv. p_variable pv = r_variable rv) reference_vars))
               patient_vars)"



definition pair_weight :: "patient_var \<times> ref_var \<Rightarrow> real" where
  "pair_weight pr = get_weight (snd pr)"

definition total_weight :: "(patient_var \<times> ref_var) list \<Rightarrow> real" where
  "total_weight pairs = sum_list (map pair_weight pairs)"



text \<open>
  The Markov measure of the specification: the six-domain chain, the adjacent pairs
  populated on both sides, and the average over the pairs present.
\<close>

definition six_domain_chain :: "string list" where
  "six_domain_chain = [''subjective'', ''vitals'', ''examination'', ''laboratory'', ''imaging'',
                       ''procedures'']"

definition spec_domain_score :: "patient_data \<Rightarrow> reference_profile \<Rightarrow> string \<Rightarrow> real option" where
  "spec_domain_score patient_data reference domain =
     (case (map_of patient_data domain, map_of (cpd reference) domain) of
        (Some patient_vars, Some reference_vars) \<Rightarrow>
          if patient_vars = [] \<or> reference_vars = [] then None
          else Some (real (length (filter (\<lambda>pr. p_magnitude (fst pr) > 0.5
                                                \<and> get_magnitude (snd pr) > 0.5)
                                     (pairs_of_domain patient_vars reference_vars)))
                     / real (length patient_vars))
      | _ \<Rightarrow> None)"

definition spec_markov :: "patient_data \<Rightarrow> reference_profile \<Rightarrow> real" where
  "spec_markov patient_data reference =
     (let products =
            concat (map (\<lambda>i. case (spec_domain_score patient_data reference (six_domain_chain ! i),
                                    spec_domain_score patient_data reference
                                      (six_domain_chain ! (i + 1))) of
                               (Some a, Some b) \<Rightarrow> [a * b]
                             | _ \<Rightarrow> [])
                      [0..<length six_domain_chain - 1])
      in if products = [] then 0 else sum_list products / real (length products))"

text \<open>The ranking order of the specification: combined, then bayesian, then identifier.\<close>

definition spec_before :: "scores \<Rightarrow> scores \<Rightarrow> bool" where
  "spec_before a b =
     (combined a > combined b
      \<or> (combined a = combined b
         \<and> (bayesian a > bayesian b
            \<or> (bayesian a = bayesian b \<and> icd10_code a \<le> icd10_code b))))"


section \<open>Auxiliary notions for the properties\<close>





text \<open>
  The contribution of one adjacent pair of domains to the Markov sum: the product of the two
  domain match scores when both domains are keys of both sides, nothing otherwise.
\<close>

definition transition_term ::
  "patient_data \<Rightarrow> reference_profile \<Rightarrow> string \<Rightarrow> string \<Rightarrow> real" where
  "transition_term patient_data reference current_domain next_domain =
     (case (map_of patient_data current_domain, map_of patient_data next_domain,
            map_of (cpd reference) current_domain, map_of (cpd reference) next_domain) of
        (Some pc, Some pn, Some rc, Some rn) \<Rightarrow>
          domain_match_score pc rc * domain_match_score pn rn
      | _ \<Rightarrow> 0)"

text \<open>
  A patient variable counts as a match when the first reference variable with its name
  exists and both magnitudes exceed \<open>0.5\<close>.
\<close>

definition first_match_hit :: "patient_var \<Rightarrow> ref_var list \<Rightarrow> bool" where
  "first_match_hit pv rvs =
     (case find (\<lambda>rv. p_variable pv = r_variable rv) rvs of
        None \<Rightarrow> False
      | Some rv \<Rightarrow> p_magnitude pv > 0.5 \<and> get_magnitude rv > 0.5)"






section \<open>Example inputs\<close>

text \<open>A patient with one vital sign and a reference whose only vital has another name.\<close>

definition hot_encounter :: encounter where
  "hot_encounter = [(''vitals'', [(''temperature'', Num 42)])]"

definition hot_patient :: patient_data where
  "hot_patient =
     [(''vitals'',
       [\<lparr>p_variable = ''temperature'', p_angle = 0, p_magnitude = 1, p_value = Num 42\<rparr>])]"

definition out_of_phase_reference :: reference_profile where
  "out_of_phase_reference =
     \<lparr>description = None,
      complex_plane_data = Some [(''vitals'',
        [\<lparr>r_variable = ''bp_diastolic'', r_angle = 180, r_magnitude = Some (1 / 2),
          r_weight = None\<rparr>])]\<rparr>"








text \<open>Two adjacent domains of the chain, fully matched, and the same data permuted.\<close>

definition chain_patient :: patient_data where
  "chain_patient =
     [(''subjective'',
       [\<lparr>p_variable = ''fever'', p_angle = 0, p_magnitude = 1, p_value = Text ''present''\<rparr>,
        \<lparr>p_variable = ''cough'', p_angle = 90, p_magnitude = 1, p_value = Text ''present''\<rparr>]),
      (''vitals'',
       [\<lparr>p_variable = ''temperature'', p_angle = 0, p_magnitude = 1, p_value = Num 42\<rparr>])]"


definition chain_reference :: reference_profile where
  "chain_reference =
     \<lparr>description = None,
      complex_plane_data = Some
        [(''subjective'',
          [\<lparr>r_variable = ''cough'', r_angle = 90, r_magnitude = Some 1, r_weight = None\<rparr>,
           \<lparr>r_variable = ''fever'', r_angle = 0, r_magnitude = Some (9 / 10),
             r_weight = Some (9 / 10)\<rparr>]),
         (''vitals'',
          [\<lparr>r_variable = ''temperature'', r_angle = 0, r_magnitude = Some 1,
             r_weight = None\<rparr>])]\<rparr>"


text \<open>Two candidates whose combined scores tie while their Bayesian scores differ.\<close>

definition tie_encounter :: encounter where
  "tie_encounter = [(''vitals'', [(''temperature'', Num 42), (''heart_rate'', Num 120)])]"

definition tie_reference_a :: reference_profile where
  "tie_reference_a =
     \<lparr>description = None,
      complex_plane_data = Some [(''vitals'',
        [\<lparr>r_variable = ''temperature'', r_angle = 0, r_magnitude = Some 0, r_weight = None\<rparr>,
         \<lparr>r_variable = ''heart_rate'', r_angle = 60, r_magnitude = Some 0,
           r_weight = None\<rparr>])]\<rparr>"

definition tie_reference_b :: reference_profile where
  "tie_reference_b =
     \<lparr>description = None,
      complex_plane_data = Some [(''vitals'',
        [\<lparr>r_variable = ''heart_rate'', r_angle = 60, r_magnitude = Some (1 / 2),
           r_weight = None\<rparr>,
         \<lparr>r_variable = ''temperature'', r_angle = 0, r_magnitude = Some 1,
           r_weight = None\<rparr>])]\<rparr>"

definition tie_library :: reference_library where
  "tie_library = [(''A00'', tie_reference_a), (''B00'', tie_reference_b)]"





section \<open>Domain Mapper\<close>



lemma hot_patient_mapped:
  "patient_complex_data initialize_angle_mappings hot_encounter = hot_patient"
  by (simp add: hot_encounter_def hot_patient_def DOMAINS_def initialize_angle_mappings_def
      angles_of_domain_def magnitude_of_def normalize_value_def normalization_ranges_def)




text \<open>
  C9 (amended). The mapped output of a domain lists exactly the observations whose names
  have an angle in the mapper's table for that domain, in input order; an observation with
  an unknown name is omitted, and no angle is minted for it.
\<close>

theorem mapped_names:
  "map p_variable (map_to_complex_plane am d vars) =
     filter (\<lambda>v. map_of (angles_of_domain am d) v \<noteq> None) (map fst vars)"
  by (induction am d vars rule: map_to_complex_plane.induct) (auto split: option.splits)

text \<open>The claim as stated fails for a vital sign that the angle table does not know.\<close>

theorem unknown_variable_counterexample:
  "map_of (angles_of_domain initialize_angle_mappings ''vitals'') ''weight_kg'' = None
   \<and> map_to_complex_plane initialize_angle_mappings ''vitals'' [(''weight_kg'', Num 80)] = []"
  by (simp add: angles_of_domain_def initialize_angle_mappings_def)


section \<open>Bayesian measure\<close>









section \<open>Kuramoto measure\<close>













text \<open>
  C4 (the code at the failing input). For the encounter with the temperature \<open>42\<close> and a
  reference whose only vital is the diastolic pressure at \<open>180\<close> degrees, the returned
  Kuramoto score is \<open>-1\<close> and the combined score is \<open>-0.3\<close>.
\<close>

theorem scores_below_zero:
  "diagnoses (analyze_patient_encounter initialize_angle_mappings
                [(''I10'', out_of_phase_reference)] hot_encounter)
     = [\<lparr>icd10_code = ''I10'', score_description = [], bayesian = 0, kuramoto = - 1,
          markov = 0, combined = - 3 / 10\<rparr>]"
  by (simp add: analyze_patient_encounter_def sort_by_combined_def diagnosis_scores_def
      hot_patient_mapped score_candidate_def hot_patient_def out_of_phase_reference_def
      calculate_bayesian_probability_def bayesian_domain_def bayesian_step_def cpd_def
      calculate_kuramoto_synchronization_def kuramoto_domain_def np_mean_def radians_def
      calculate_markov_probability_def markov_step_def domain_sequence_def upt_rec Let_def)


section \<open>Markov measure\<close>

lemma markov_step_term:
  "markov_step patient_data reference i acc =
     acc + transition_term patient_data reference (domain_sequence ! i)
             (domain_sequence ! (i + 1))"
  by (simp add: markov_step_def transition_term_def Let_def split: option.splits)

lemma markov_fold:
  "fold (markov_step patient_data reference) is acc =
     acc + sum_list (map (\<lambda>i. transition_term patient_data reference (domain_sequence ! i)
                                (domain_sequence ! (i + 1))) is)"
  by (induction "is" arbitrary: acc) (simp_all add: markov_step_term)

lemma markov_closed_form:
  "calculate_markov_probability patient_data reference =
     (transition_term patient_data reference ''subjective'' ''vitals''
      + transition_term patient_data reference ''vitals'' ''examination''
      + transition_term patient_data reference ''examination'' ''laboratory''
      + transition_term patient_data reference ''laboratory'' ''imaging'') / 4"
  unfolding calculate_markov_probability_def markov_fold
  by (simp add: domain_sequence_def upt_rec)

lemma match_first_hit:
  "match_first pv rvs m = m + (if first_match_hit pv rvs then 1 else 0)"
  by (induction rvs) (simp_all add: first_match_hit_def)

lemma matches_fold:
  "fold (\<lambda>pv. match_first pv rvs) pvs m
     = m + length (filter (\<lambda>pv. first_match_hit pv rvs) pvs)"
  by (induction pvs arbitrary: m) (simp_all add: match_first_hit)

lemma domain_match_score_closed_form:
  "domain_match_score pvs rvs =
     (if pvs = [] \<or> rvs = [] then 0
      else real (length (filter (\<lambda>pv. first_match_hit pv rvs) pvs)) / real (length pvs))"
  by (simp add: domain_match_score_def matches_fold)

lemma markov_chain_value: "calculate_markov_probability chain_patient chain_reference = 1 / 4"
  by (simp add: markov_closed_form transition_term_def domain_match_score_closed_form
      first_match_hit_def chain_patient_def chain_reference_def cpd_def get_magnitude_def)

lemma spec_markov_chain_value: "spec_markov chain_patient chain_reference = 1"
  by (simp add: spec_markov_def spec_domain_score_def six_domain_chain_def
      pairs_of_domain_def chain_patient_def chain_reference_def cpd_def get_magnitude_def
      upt_rec)

text \<open>
  C3 (amended). The Markov measure is computed over the ordered five-domain chain
  subjective, vitals, examination, laboratory, imaging: for each adjacent pair whose two
  domains are keys of both sides, the two domain match scores are multiplied, and the
  measure is the sum of these products divided by the fixed number of adjacent pairs of the
  chain, \<open>4\<close>. A domain match score is the number of patient variables whose first
  name-matching reference variable exists with both magnitudes above \<open>0.5\<close>, divided by
  the number of patient variables of the domain, and \<open>0\<close> when either list is empty.
\<close>

theorem markov_fixed_denominator:
  "calculate_markov_probability patient_data reference =
     (transition_term patient_data reference ''subjective'' ''vitals''
      + transition_term patient_data reference ''vitals'' ''examination''
      + transition_term patient_data reference ''examination'' ''laboratory''
      + transition_term patient_data reference ''laboratory'' ''imaging'') / 4
   \<and> domain_match_score pvs rvs =
       (if pvs = [] \<or> rvs = [] then 0
        else real (length (filter (\<lambda>pv. first_match_hit pv rvs) pvs)) / real (length pvs))"
  using markov_closed_form domain_match_score_closed_form by simp

text \<open>
  The claim as stated fails when one adjacent pair is fully matched: the average over the
  pairs present is \<open>1\<close>, and the measure is \<open>1/4\<close>.
\<close>

theorem markov_average_counterexample:
  "calculate_markov_probability chain_patient chain_reference = 1 / 4
   \<and> spec_markov chain_patient chain_reference = 1"
  using markov_chain_value spec_markov_chain_value by (intro conjI)


section \<open>Scoring and ranking\<close>





lemma length_diagnoses:
  "length (diagnoses (analyze_patient_encounter am library encounter_data))
     = min 10 (length library)"
  by (simp add: analyze_patient_encounter_def sort_by_combined_def diagnosis_scores_def)


lemma sorted_sort_by_combined:
  "sorted_wrt (\<lambda>a b. combined a \<ge> combined b) (sort_by_combined xs)"
proof -
  have "sorted (map (\<lambda>x. - combined x) (sort_key (\<lambda>x. - combined x) xs))"
    by (rule sorted_sort_key)
  then show ?thesis
    by (simp add: sort_by_combined_def sorted_wrt_map)
qed

lemma stable_sort_by_combined:
  "filter (\<lambda>s. combined s = c) (sort_by_combined xs) = filter (\<lambda>s. combined s = c) xs"
proof -
  have "filter (\<lambda>y. - combined y = - c) (sort_key (\<lambda>x. - combined x) xs)
          = filter (\<lambda>y. - combined y = - c) xs"
    by (rule sort_key_stable)
  then show ?thesis by (simp add: sort_by_combined_def)
qed

lemma tie_patient:
  "patient_complex_data initialize_angle_mappings tie_encounter =
     [(''vitals'',
       [\<lparr>p_variable = ''temperature'', p_angle = 0, p_magnitude = 1, p_value = Num 42\<rparr>,
        \<lparr>p_variable = ''heart_rate'', p_angle = 60, p_magnitude = 1 / 2,
          p_value = Num 120\<rparr>])]"
  by (simp add: tie_encounter_def DOMAINS_def initialize_angle_mappings_def angles_of_domain_def
      magnitude_of_def normalize_value_def normalization_ranges_def)

lemma tie_score_a:
  "score_candidate (patient_complex_data initialize_angle_mappings tie_encounter)
     (''A00'', tie_reference_a)
   = \<lparr>icd10_code = ''A00'', score_description = [], bayesian = 5 / 8, kuramoto = 1,
      markov = 0, combined = 11 / 20\<rparr>"
  unfolding tie_patient
  by (simp add: score_candidate_def tie_reference_a_def calculate_bayesian_probability_def
      bayesian_domain_def bayesian_step_def cpd_def get_magnitude_def get_weight_def
      calculate_kuramoto_synchronization_def kuramoto_domain_def np_mean_def radians_def
      calculate_markov_probability_def markov_step_def domain_sequence_def upt_rec Let_def)

lemma tie_score_b:
  "score_candidate (patient_complex_data initialize_angle_mappings tie_encounter)
     (''B00'', tie_reference_b)
   = \<lparr>icd10_code = ''B00'', score_description = [], bayesian = 1, kuramoto = 1 / 2,
      markov = 0, combined = 11 / 20\<rparr>"
  unfolding tie_patient
  by (simp add: score_candidate_def tie_reference_b_def calculate_bayesian_probability_def
      bayesian_domain_def bayesian_step_def cpd_def get_magnitude_def get_weight_def
      calculate_kuramoto_synchronization_def kuramoto_domain_def np_mean_def radians_def
      calculate_markov_probability_def markov_step_def domain_sequence_def upt_rec Let_def
      cos_60)

text \<open>
  C5 (amended). The ranked output is the first ten entries of the candidate list sorted by
  combined score descending; candidates with equal combined score keep the order in which
  the reference library lists them (no tie-break by Bayesian score or identifier), and the
  output length is exactly \<open>min(10, number of candidates)\<close>.
\<close>

theorem ranking_by_combined:
  "diagnoses (analyze_patient_encounter am library encounter_data)
     = take 10 (sort_by_combined (diagnosis_scores am library encounter_data))
   \<and> sorted_wrt (\<lambda>a b. combined a \<ge> combined b)
       (sort_by_combined (diagnosis_scores am library encounter_data))
   \<and> (\<forall>c. filter (\<lambda>s. combined s = c)
             (sort_by_combined (diagnosis_scores am library encounter_data))
           = filter (\<lambda>s. combined s = c) (diagnosis_scores am library encounter_data))
   \<and> length (diagnoses (analyze_patient_encounter am library encounter_data))
       = min 10 (length library)"
  using sorted_sort_by_combined stable_sort_by_combined length_diagnoses
  by (simp add: analyze_patient_encounter_def)

text \<open>
  The claim as stated fails on a tie: both candidates have the combined score \<open>0.55\<close>,
  the second has the higher Bayesian score, and the first stays first.
\<close>

theorem tie_break_counterexample:
  "\<not> sorted_wrt spec_before
       (diagnoses (analyze_patient_encounter initialize_angle_mappings tie_library
                     tie_encounter))"
  by (simp add: analyze_patient_encounter_def sort_by_combined_def diagnosis_scores_def
      tie_library_def tie_score_a tie_score_b spec_before_def)




section \<open>Angle Allocator\<close>


















section \<open>Permutations within a domain\<close>




















end
